theory Spec2Isabelle
  imports Complex_Main
begin

section \<open>Python values, exceptions and strings\<close>

text \<open>
  The exceptions that the modelled functions can raise.  A function that can raise returns
  \<open>error + 'a\<close>, with \<open>Inl\<close> for the exception.  \<open>NameError\<close> is what Python raises
  when a global name is read that the module never bound; \<open>TypeError\<close> is raised by
  subscripting \<open>None\<close>; \<open>ValueError\<close> by \<open>int\<close> on a string that is not a number;
  \<open>MongoError\<close> and \<open>SqliteError\<close> stand for any exception of the two store drivers;
  \<open>OtherError\<close> for any other exception of a collaborator, by its message.
\<close>

datatype error = NameError | TypeError | ValueError | MongoError | SqliteError | OtherError string

text \<open>
  A \<open>char\<close> stands for a code point below 256.  \<open>is_space\<close> is the set of such code
  points that \<open>str.strip()\<close> removes.
\<close>

definition is_space :: "char \<Rightarrow> bool" where
  "is_space c = (of_char c \<in> {9, 10, 11, 12, 13, 28, 29, 30, 31, 32, 133, 160 :: nat})"

definition strip :: "string \<Rightarrow> string" where
  "strip s = rev (dropWhile is_space (rev (dropWhile is_space s)))"

definition is_digit :: "char \<Rightarrow> bool" where
  "is_digit c = (48 \<le> (of_char c :: nat) \<and> (of_char c :: nat) \<le> 57)"

definition digit_val :: "char \<Rightarrow> nat" where
  "digit_val c = of_char c - 48"

definition digit_char :: "nat \<Rightarrow> char" where
  "digit_char d = char_of (48 + d)"

text \<open>\<open>str(n)\<close> for an integer: decimal digits, with a minus sign when negative.\<close>

fun str_nat :: "nat \<Rightarrow> string" where
  "str_nat n = (if n < 10 then [digit_char n] else str_nat (n div 10) @ [digit_char (n mod 10)])"

declare str_nat.simps [simp del]

definition str_int :: "int \<Rightarrow> string" where
  "str_int i = (if i < 0 then CHR ''-'' # str_nat (nat (- i)) else str_nat (nat i))"

text \<open>
  \<open>int(s)\<close> for a string: surrounding whitespace is stripped, one sign is allowed, then
  decimal digits, with single underscores allowed between digits; anything else raises
  \<open>ValueError\<close>.
\<close>

fun int_digits :: "nat \<Rightarrow> string \<Rightarrow> nat option" where
  "int_digits acc [] = None"
| "int_digits acc (c # cs) =
     (if \<not> is_digit c then None
      else (case cs of
              [] \<Rightarrow> Some (10 * acc + digit_val c)
            | d # ds \<Rightarrow>
                if d = CHR ''_'' then int_digits (10 * acc + digit_val c) ds
                else int_digits (10 * acc + digit_val c) cs))"

definition py_int :: "string \<Rightarrow> error + int" where
  "py_int s =
     (case strip s of
        [] \<Rightarrow> Inl ValueError
      | c # cs \<Rightarrow>
          if c = CHR ''-'' then
            (case int_digits 0 cs of None \<Rightarrow> Inl ValueError | Some n \<Rightarrow> Inr (- int n))
          else if c = CHR ''+'' then
            (case int_digits 0 cs of None \<Rightarrow> Inl ValueError | Some n \<Rightarrow> Inr (int n))
          else
            (case int_digits 0 (c # cs) of None \<Rightarrow> Inl ValueError | Some n \<Rightarrow> Inr (int n)))"


section \<open>utils.py: the key-value cache with expiry and the rate limiter\<close>

text \<open>
  The table \<open>cache (key TEXT PRIMARY KEY, value TEXT, expire_at INTEGER)\<close> that
  \<open>utils.init_sqlite\<close> creates: a map from the key to the pair of \<open>value\<close> and
  \<open>expire_at\<close>, where \<open>None\<close> is SQL \<open>NULL\<close>.
\<close>

type_synonym cache_table = "string \<rightharpoonup> (string \<times> int option)"

text \<open>
  Every function of utils.py that looks at the clock evaluates \<open>int(time.time())\<close>.
  The name \<open>time\<close> is a global of the module, and the value it is bound to is an input of
  the model: \<open>Some t\<close> when the name is bound to the clock module and the clock reads
  \<open>t\<close> whole seconds during the call, \<open>None\<close> when the name is unbound, where reading
  it raises \<open>NameError\<close>.  One call takes one reading.
\<close>

definition int_time_time :: "int option \<Rightarrow> error + int" where
  "int_time_time tm = (case tm of None \<Rightarrow> Inl NameError | Some t \<Rightarrow> Inr t)"

text \<open>
  The import statements of utils.py are \<open>sqlite3\<close>, \<open>translate.Translator\<close>, \<open>logging\<close>,
  \<open>os\<close>, \<open>pymongo.MongoClient\<close> and \<open>dotenv.load_dotenv\<close>; none of them binds
  \<open>time\<close> and no statement of the module assigns it.  \<open>utils_time\<close> is the binding the
  module as written gives its functions.
\<close>

definition utils_time :: "int option" where
  "utils_time = None"

text \<open>
  \<open>cache_data(key, value, expire, sqlite_conn)\<close>.  The expression
  \<open>int(time.time()) + expire if expire else None\<close> reads the clock only when \<open>expire\<close>
  is truthy: neither \<open>None\<close> nor 0.  \<open>INSERT OR REPLACE\<close> overwrites the row.
\<close>

definition cache_data :: "int option \<Rightarrow> string \<Rightarrow> string \<Rightarrow> int option \<Rightarrow> cache_table \<Rightarrow> error + cache_table" where
  "cache_data tm key val expire db =
     (case expire of
        None \<Rightarrow> Inr (db(key \<mapsto> (val, None)))
      | Some ex \<Rightarrow>
          if ex = 0 then Inr (db(key \<mapsto> (val, None)))
          else (case int_time_time tm of
                  Inl e \<Rightarrow> Inl e
                | Inr now \<Rightarrow> Inr (db(key \<mapsto> (val, Some (now + ex))))))"

definition delete_cached_data :: "string \<Rightarrow> cache_table \<Rightarrow> cache_table" where
  "delete_cached_data key db = db(key := None)"

text \<open>
  \<open>get_cached_data(key, sqlite_conn)\<close> returns the value or \<open>None\<close>, and the table as
  it leaves it.  In \<open>expire_at is None or int(time.time()) < expire_at\<close> the clock is read
  only when \<open>expire_at\<close> is not \<open>NULL\<close>.
\<close>

definition get_cached_data :: "int option \<Rightarrow> string \<Rightarrow> cache_table \<Rightarrow> error + (string option \<times> cache_table)" where
  "get_cached_data tm key db =
     (case db key of
        None \<Rightarrow> Inr (None, db)
      | Some (val, expire_at) \<Rightarrow>
          (case expire_at of
             None \<Rightarrow> Inr (Some val, db)
           | Some ea \<Rightarrow>
               (case int_time_time tm of
                  Inl e \<Rightarrow> Inl e
                | Inr now \<Rightarrow>
                    if now < ea then Inr (Some val, db)
                    else Inr (None, delete_cached_data key db))))"

text \<open>
  The last four lines of \<open>is_rate_limited\<close>, which every path that does not return
  \<open>True\<close> reaches: \<open>new_count = current_count + 1\<close>, the local
  \<open>expire_at = int(time.time()) + window_seconds\<close> (read and never used), the write
  through \<open>cache_data\<close> with \<open>expire=window_seconds\<close>, and \<open>return False\<close>.
\<close>

definition rate_limit_store :: "int option \<Rightarrow> string \<Rightarrow> int \<Rightarrow> int \<Rightarrow> cache_table \<Rightarrow> error + (bool \<times> cache_table)" where
  "rate_limit_store tm key current_count window_seconds db =
     (case int_time_time tm of
        Inl e \<Rightarrow> Inl e
      | Inr now \<Rightarrow>
          (case cache_data tm key (str_int (current_count + 1)) (Some window_seconds) db of
             Inl e \<Rightarrow> Inl e
           | Inr db' \<Rightarrow> Inr (False, db')))"

definition rate_key :: "int \<Rightarrow> string" where
  "rate_key user_id = ''rate_limit:'' @ str_int user_id"

text \<open>
  \<open>is_rate_limited(user_id, max_requests, window_seconds, sqlite_conn)\<close>: \<open>True\<close> means
  the request is denied, \<open>False\<close> that it is allowed.  Every exception is raised before
  the first write, so an \<open>Inl\<close> result leaves the table as it was.
\<close>

definition is_rate_limited :: "int option \<Rightarrow> int \<Rightarrow> int \<Rightarrow> int \<Rightarrow> cache_table \<Rightarrow> error + (bool \<times> cache_table)" where
  "is_rate_limited tm user_id max_requests window_seconds db =
     (case db (rate_key user_id) of
        Some (val, expire_at) \<Rightarrow>
          (case py_int val of
             Inl e \<Rightarrow> Inl e
           | Inr current_count \<Rightarrow>
               (case expire_at of
                  None \<Rightarrow>
                    if current_count \<ge> max_requests then Inr (True, db)
                    else rate_limit_store tm (rate_key user_id) current_count window_seconds db
                | Some ea \<Rightarrow>
                    (case int_time_time tm of
                       Inl e \<Rightarrow> Inl e
                     | Inr now \<Rightarrow>
                         if now < ea then
                           (if current_count \<ge> max_requests then Inr (True, db)
                            else rate_limit_store tm (rate_key user_id) current_count window_seconds db)
                         else rate_limit_store tm (rate_key user_id) 0 window_seconds
                                (delete_cached_data (rate_key user_id) db))))
      | None \<Rightarrow> rate_limit_store tm (rate_key user_id) 0 window_seconds db)"


section \<open>user\_management.py: the user ledger over two stores\<close>

text \<open>
  The dictionary that \<open>get_user\<close> returns, and the documents of the MongoDB collection
  \<open>users\<close> (taken to carry the same four fields).
\<close>

record user =
  user_id :: int
  coins :: int
  language :: string
  achievements :: string

text \<open>
  A row of the SQLite table \<open>users (user_id INTEGER PRIMARY KEY, coins, language,
  achievements)\<close>, without its key: the table is a map from \<open>user_id\<close> to the row.
\<close>

record user_row =
  row_coins :: int
  row_language :: string
  row_achievements :: string

text \<open>
  The two stores.  \<open>mongo_users\<close> is the primary store: \<open>Inr docs\<close> when the
  collection answers, with its documents in order, \<open>Inl e\<close> when \<open>find_one\<close> raises
  \<open>e\<close> (timeout, connectivity).  \<open>sqlite_up\<close> says whether the SQLite connection
  works: when it does not, every \<open>cursor.execute\<close> raises.  \<open>sqlite_users\<close> is the
  content of the table.  Logging is not modelled: it changes no store and no result.
\<close>

record ledger =
  mongo_users :: "error + user list"
  sqlite_up :: bool
  sqlite_users :: "int \<rightharpoonup> user_row"

definition find_one :: "int \<Rightarrow> ledger \<Rightarrow> error + user option" where
  "find_one uid s =
     (case mongo_users s of
        Inl e \<Rightarrow> Inl e
      | Inr docs \<Rightarrow> Inr (find (\<lambda>d. user_id d = uid) docs))"

definition sqlite_select_user :: "int \<Rightarrow> ledger \<Rightarrow> error + user_row option" where
  "sqlite_select_user uid s = (if sqlite_up s then Inr (sqlite_users s uid) else Inl SqliteError)"

text \<open>
  \<open>get_user(user_id)\<close>.  The \<open>try\<close> covers the MongoDB lookup only; its handler logs and
  falls through.  The SQLite lookup that follows is outside every \<open>try\<close>.
\<close>

definition get_user :: "int \<Rightarrow> ledger \<Rightarrow> error + user option" where
  "get_user uid s =
     (case (case find_one uid s of
              Inl e \<Rightarrow> None
            | Inr None \<Rightarrow> None
            | Inr (Some doc) \<Rightarrow> Some doc) of
        Some doc \<Rightarrow> Inr (Some doc)
      | None \<Rightarrow>
          (case sqlite_select_user uid s of
             Inl e \<Rightarrow> Inl e
           | Inr (Some r) \<Rightarrow>
               Inr (Some \<lparr>user_id = uid, coins = row_coins r, language = row_language r,
                          achievements = row_achievements r\<rparr>)
           | Inr None \<Rightarrow> Inr None))"

text \<open>
  The statements inside the \<open>try\<close> of \<open>create_user\<close>:
  \<open>INSERT OR IGNORE INTO users ... VALUES (user_id, 10, "en", "[]")\<close>.
\<close>

definition create_user_try :: "int \<Rightarrow> ledger \<Rightarrow> error + ledger" where
  "create_user_try uid s =
     (if \<not> sqlite_up s then Inl SqliteError
      else (case sqlite_users s uid of
              Some r \<Rightarrow> Inr s
            | None \<Rightarrow>
                Inr (s\<lparr>sqlite_users := (sqlite_users s)(uid \<mapsto>
                       \<lparr>row_coins = 10, row_language = ''en'', row_achievements = ''[]''\<rparr>)\<rparr>)))"

text \<open>\<open>create_user(user_id)\<close>: \<open>except Exception\<close> logs the exception and returns.\<close>

definition create_user :: "int \<Rightarrow> ledger \<Rightarrow> error + ledger" where
  "create_user uid s = (case create_user_try uid s of Inl e \<Rightarrow> Inr s | Inr s' \<Rightarrow> Inr s')"

text \<open>
  The statements inside the \<open>try\<close> of \<open>update_coins\<close>:
  \<open>UPDATE users SET coins = coins + ? WHERE user_id = ?\<close>; both values of
  \<open>cursor.rowcount\<close> lead to a log line only.  Balances are unbounded integers here
  (SQLite's are 64-bit).
\<close>

definition update_coins_try :: "int \<Rightarrow> int \<Rightarrow> ledger \<Rightarrow> error + ledger" where
  "update_coins_try uid coins_change s =
     (if \<not> sqlite_up s then Inl SqliteError
      else (case sqlite_users s uid of
              None \<Rightarrow> Inr s
            | Some r \<Rightarrow>
                Inr (s\<lparr>sqlite_users := (sqlite_users s)(uid \<mapsto>
                       r\<lparr>row_coins := row_coins r + coins_change\<rparr>)\<rparr>)))"

text \<open>\<open>update_coins(user_id, coins_change)\<close>, with its \<open>except Exception\<close>.\<close>

definition update_coins :: "int \<Rightarrow> int \<Rightarrow> ledger \<Rightarrow> error + ledger" where
  "update_coins uid coins_change s =
     (case update_coins_try uid coins_change s of Inl e \<Rightarrow> Inr s | Inr s' \<Rightarrow> Inr s')"




section \<open>bot\_commands.py: the cache of answers and the lookup\<close>

text \<open>
  The table \<open>cache (key TEXT PRIMARY KEY, value TEXT)\<close> that \<open>main.init_sqlite\<close>
  creates and stores in \<open>bot_data["sqlite_conn"]\<close>: it has no third column.
\<close>

type_synonym answer_cache = "string \<rightharpoonup> string"

text \<open>
  \<open>cache_data(key, value, context)\<close> and \<open>get_cached_data(key, context)\<close> of
  bot\_commands.py (the suffix tells them from the functions of utils.py with the same
  names).  The read returns the table as it leaves it.
\<close>

definition cache_data_bc :: "string \<Rightarrow> string \<Rightarrow> answer_cache \<Rightarrow> answer_cache" where
  "cache_data_bc key val db = db(key \<mapsto> val)"

definition get_cached_data_bc :: "string \<Rightarrow> answer_cache \<Rightarrow> string option \<times> answer_cache" where
  "get_cached_data_bc key db = (db key, db)"




record doc =
  question :: string
  answer :: string

datatype conv_state =
  ASK_LANGUAGE | ASK_SUBJECT | ASK_LEVEL | ASK_PAPER | PROCESS_QUESTION | SELECT_SIMILAR | END

text \<open>
  What a handler does that no store records, in order: the messages it sends, and its
  calls to the cache and to the two collaborators \<open>scrape_past_papers\<close> and
  \<open>find_similar_questions\<close>.
\<close>

datatype event =
    Reply string
  | ReplyKeyboard string "(string \<times> string) list"
  | CacheRead string
  | CacheWrite string string
  | Fetch string string string
  | Match string "doc list" "real option"
  | UpdateCoins int int

text \<open>
  Everything a handler can reach through \<open>update\<close>, \<open>context\<close> and the module globals:
  the ledger, the cache of answers, the rate-limit table of utils.py, the selections in
  \<open>context.user_data\<close>, and the events so far.
\<close>

record world =
  ledger :: ledger
  cache :: answer_cache
  rate_table :: cache_table
  subject :: "string option"
  level :: "string option"
  paper :: "string option"
  similar_questions :: "doc list option"
  events :: "event list"

definition emit :: "event \<Rightarrow> world \<Rightarrow> world" where
  "emit ev w = w\<lparr>events := events w @ [ev]\<rparr>"

text \<open>\<open>all([subject, level, paper])\<close>: each is present and not the empty string.\<close>

definition truthy :: "string option \<Rightarrow> bool" where
  "truthy x = (case x of None \<Rightarrow> False | Some s \<Rightarrow> s \<noteq> [])"

text \<open>
  \<open>list_similar_questions\<close>: one button for each of the first five questions, labelled
  \<open>f"{i+1}. {q['question']}"\<close> with \<open>callback_data=str(i)\<close>.
\<close>

definition list_similar_questions :: "doc list \<Rightarrow> world \<Rightarrow> world" where
  "list_similar_questions qs w =
     emit (ReplyKeyboard ''Here are some similar questions:''
             (map (\<lambda>(i, q). (str_int (int i + 1) @ ''. '' @ question q, str_int (int i)))
                  (enumerate 0 (take 5 qs)))) w"

text \<open>\<open>update_coins(user_id, -1)\<close> as the handler calls it.\<close>

definition debit :: "int \<Rightarrow> world \<Rightarrow> world" where
  "debit uid w =
     (case update_coins uid (- 1) (ledger w) of
        Inl e \<Rightarrow> emit (UpdateCoins uid (- 1)) w
      | Inr l \<Rightarrow> emit (UpdateCoins uid (- 1)) (w\<lparr>ledger := l\<rparr>))"

text \<open>The two cache calls as the handler makes them, each leaving its event.\<close>

definition cache_read :: "string \<Rightarrow> world \<Rightarrow> string option \<times> world" where
  "cache_read key w =
     (case get_cached_data_bc key (cache w) of
        (r, db) \<Rightarrow> (r, emit (CacheRead key) (w\<lparr>cache := db\<rparr>)))"

definition cache_write :: "string \<Rightarrow> string \<Rightarrow> world \<Rightarrow> world" where
  "cache_write key val w = emit (CacheWrite key val) (w\<lparr>cache := cache_data_bc key val (cache w)\<rparr>)"

text \<open>
  The statements inside the \<open>try\<close> of \<open>handle_question\<close>.  bot\_commands.py neither
  defines nor imports \<open>scrape_past_papers\<close> and \<open>find_similar_questions\<close>: they are
  parameters here, each returning a list of documents or raising.  The third argument of
  \<open>find_similar_questions\<close> is \<open>None\<close> for the call without \<open>threshold\<close> and
  \<open>Some 0.8\<close> for the call with \<open>threshold=0.8\<close>.  The result is the state the
  statements return (the \<open>return SELECT_SIMILAR\<close> after the \<open>try\<close> when they fall
  through) or the exception they raise.
\<close>

definition handle_question_try ::
  "(string \<Rightarrow> string \<Rightarrow> string \<Rightarrow> error + doc list) \<Rightarrow>
   (string \<Rightarrow> doc list \<Rightarrow> real option \<Rightarrow> error + doc list) \<Rightarrow>
   int \<Rightarrow> string \<Rightarrow> string \<Rightarrow> string \<Rightarrow> string \<Rightarrow> string \<Rightarrow> world \<Rightarrow> (error + conv_state) \<times> world" where
  "handle_question_try scrape_past_papers find_similar_questions uid q subj lev pap key w =
     (let w1 = emit (Fetch subj lev pap) w in
      case scrape_past_papers subj lev pap of
        Inl e \<Rightarrow> (Inl e, w1)
      | Inr past_papers \<Rightarrow>
          if past_papers = [] then
            (Inr END,
             emit (Reply ''No past papers found for the selected subject, level, and paper.'') w1)
          else
            (let w2 = emit (Match q past_papers None) w1 in
             case find_similar_questions q past_papers None of
               Inl e \<Rightarrow> (Inl e, w2)
             | Inr (m # ms) \<Rightarrow>
                 (let w3 = emit (Reply (''Exact match found: '' @ answer m)) w2;
                      w4 = cache_write key (answer m) w3
                  in (Inr SELECT_SIMILAR, debit uid w4))
             | Inr [] \<Rightarrow>
                 (let w3 = emit (Match q past_papers (Some (8 / 10))) w2 in
                  case find_similar_questions q past_papers (Some (8 / 10)) of
                    Inl e \<Rightarrow> (Inl e, w3)
                  | Inr (s # ss) \<Rightarrow>
                      (let w4 = emit (Reply ''The following question was found:'') w3;
                           w5 = emit (Reply (question s)) w4;
                           w6 = emit (Reply (answer s)) w5;
                           w7 = cache_write key (answer s) w6;
                           w8 = w7\<lparr>similar_questions := Some (s # ss)\<rparr>;
                           w9 = list_similar_questions (s # ss) w8
                       in (Inr SELECT_SIMILAR, debit uid w9))
                  | Inr [] \<Rightarrow>
                      (let w4 = emit (Reply ''No matching or similar questions found.'') w3
                       in (Inr SELECT_SIMILAR, debit uid w4)))))"

text \<open>The cache key \<open>f"{question}:{subject}:{level}:{paper}"\<close>.\<close>

definition cache_key :: "string \<Rightarrow> string \<Rightarrow> string \<Rightarrow> string \<Rightarrow> string" where
  "cache_key q subj lev pap = q @ '':'' @ subj @ '':'' @ lev @ '':'' @ pap"

text \<open>
  \<open>handle_question(update, context)\<close> for the user \<open>uid\<close> and the message text \<open>txt\<close>.
  The result is the conversation state returned, or the exception that leaves the handler,
  and the world as the handler leaves it.  \<open>user["coins"]\<close> raises \<open>TypeError\<close> when
  \<open>get_user\<close> returned \<open>None\<close>.  \<open>the\<close> is applied to the three selections only
  after \<open>all([subject, level, paper])\<close> has held.
\<close>

definition handle_question ::
  "(string \<Rightarrow> string \<Rightarrow> string \<Rightarrow> error + doc list) \<Rightarrow>
   (string \<Rightarrow> doc list \<Rightarrow> real option \<Rightarrow> error + doc list) \<Rightarrow>
   int \<Rightarrow> string \<Rightarrow> world \<Rightarrow> (error + conv_state) \<times> world" where
  "handle_question scrape_past_papers find_similar_questions uid txt w =
     (case get_user uid (ledger w) of
        Inl e \<Rightarrow> (Inl e, w)
      | Inr None \<Rightarrow> (Inl TypeError, w)
      | Inr (Some u) \<Rightarrow>
          if coins u \<le> 0 then
            (Inr END, emit (Reply ''You don't have enough coins to ask a question.'') w)
          else if \<not> (truthy (subject w) \<and> truthy (level w) \<and> truthy (paper w)) then
            (Inr END,
             emit (Reply ''Please complete the selection process before asking a question.'') w)
          else
            (let q = strip txt;
                 subj = the (subject w);
                 lev = the (level w);
                 pap = the (paper w);
                 key = cache_key q subj lev pap
             in case cache_read key w of
                  (cached_answer, w1) \<Rightarrow>
                    if truthy cached_answer then
                      (Inr END,
                       debit uid (emit (Reply (''Cached answer: '' @ the cached_answer)) w1))
                    else
                      (case handle_question_try scrape_past_papers find_similar_questions
                              uid q subj lev pap key w1 of
                         (Inl e, w2) \<Rightarrow>
                           (Inr SELECT_SIMILAR,
                            emit (Reply ''An error occurred while processing your request.'') w2)
                       | (Inr st, w2) \<Rightarrow> (Inr st, w2))))"


section \<open>Example inputs\<close>


text \<open>A rate-limit table where user 1 has used up the ten requests of a window with no expiry.\<close>

definition exhausted_table :: cache_table where
  "exhausted_table = [''rate_limit:1'' \<mapsto> (''10'', None)]"

text \<open>A ledger whose primary store is unreachable and whose SQLite connection fails.\<close>

definition failing_ledger :: ledger where
  "failing_ledger = \<lparr>mongo_users = Inl MongoError, sqlite_up = False, sqlite_users = Map.empty\<rparr>"

text \<open>A ledger with user 1 (ten coins) in SQLite only, and one with user 1 at zero coins.\<close>

definition ledger_ten :: ledger where
  "ledger_ten = \<lparr>mongo_users = Inr [], sqlite_up = True,
     sqlite_users = [1 \<mapsto> \<lparr>row_coins = 10, row_language = ''en'', row_achievements = ''[]''\<rparr>]\<rparr>"

definition ledger_zero :: ledger where
  "ledger_zero = \<lparr>mongo_users = Inl MongoError, sqlite_up = True,
     sqlite_users = [1 \<mapsto> \<lparr>row_coins = 0, row_language = ''fr'', row_achievements = ''[]''\<rparr>]\<rparr>"

definition ledger_empty :: ledger where
  "ledger_empty = \<lparr>mongo_users = Inr [], sqlite_up = True, sqlite_users = Map.empty\<rparr>"

text \<open>Collaborators: a source with one document, and a matcher that finds nothing.\<close>

definition one_paper :: "string \<Rightarrow> string \<Rightarrow> string \<Rightarrow> error + doc list" where
  "one_paper subj lev pap = Inr [\<lparr>question = ''What is 2+2?'', answer = ''4''\<rparr>]"

definition finds_nothing :: "string \<Rightarrow> doc list \<Rightarrow> real option \<Rightarrow> error + doc list" where
  "finds_nothing q ps th = Inr []"

text \<open>Worlds with the three selections made: an empty cache, and a cache that holds the answer.\<close>

definition world_miss :: world where
  "world_miss = \<lparr>ledger = ledger_ten, cache = Map.empty, rate_table = Map.empty,
     subject = Some ''Physics'', level = Some ''O-Level'', paper = Some ''Paper 1'',
     similar_questions = None, events = []\<rparr>"

definition world_hit :: world where
  "world_hit = \<lparr>ledger = ledger_ten,
     cache = [''What is 2+2?:Physics:O-Level:Paper 1'' \<mapsto> ''4''],
     rate_table = exhausted_table,
     subject = Some ''Physics'', level = Some ''O-Level'', paper = Some ''Paper 1'',
     similar_questions = None, events = []\<rparr>"

definition world_zero :: world where
  "world_zero = \<lparr>ledger = ledger_zero, cache = Map.empty, rate_table = Map.empty,
     subject = Some ''Physics'', level = Some ''O-Level'', paper = Some ''Paper 1'',
     similar_questions = None, events = []\<rparr>"



text \<open>
  The two collaborators as bot\_commands.py binds them: it neither defines nor imports the
  names, so each call raises \<open>NameError\<close>.
\<close>

definition scrape_past_papers_unbound :: "string \<Rightarrow> string \<Rightarrow> string \<Rightarrow> error + doc list" where
  "scrape_past_papers_unbound subj lev pap = Inl NameError"

definition find_similar_questions_unbound :: "string \<Rightarrow> doc list \<Rightarrow> real option \<Rightarrow> error + doc list" where
  "find_similar_questions_unbound q ps th = Inl NameError"



section \<open>The cache with expiry (utils.py)\<close>

lemma rate_key_1: "rate_key 1 = ''rate_limit:1''"
  by code_simp

lemma rate_key_7: "rate_key 7 = ''rate_limit:7''"
  by code_simp


lemma py_int_str_1: "py_int (str_int 1) = Inr 1"
  by code_simp

lemma py_int_str_2: "py_int (str_int 2) = Inr 2"
  by code_simp

lemma py_int_str_3: "py_int (str_int 3) = Inr 3"
  by code_simp


lemma py_int_lit_10: "py_int ''10'' = Inr 10"
  by code_simp

text \<open>
  With the clock bound, an entry written with a ttl other than 0 is returned at every
  time before \<open>now + ttl\<close> and the table keeps it.
\<close>

lemma get_after_put_live:
  assumes "ttl \<noteq> 0" and "t < now + ttl"
  shows "\<exists>db'. cache_data (Some now) k v (Some ttl) db = Inr db' \<and>
               get_cached_data (Some t) k db' = Inr (Some v, db')"
  using assms by (simp add: cache_data_def get_cached_data_def int_time_time_def)

text \<open>
  From \<open>now + ttl\<close> on the read returns absent and deletes the row, and every later
  read, whatever the clock says, returns absent too.
\<close>

lemma get_after_put_expired:
  assumes "ttl \<noteq> 0" and "now + ttl \<le> t"
  shows "\<exists>db' db''. cache_data (Some now) k v (Some ttl) db = Inr db' \<and>
               get_cached_data (Some t) k db' = Inr (None, db'') \<and> db'' k = None \<and>
               get_cached_data tm k db'' = Inr (None, db'')"
  using assms
  by (simp add: cache_data_def get_cached_data_def int_time_time_def delete_cached_data_def)

text \<open>A key that is not in the table is absent, whatever \<open>time\<close> is bound to.\<close>

lemma get_never_written: "db k = None \<Longrightarrow> get_cached_data tm k db = Inr (None, db)"
  by (simp add: get_cached_data_def)

text \<open>A ttl of 0 is falsy: the entry is stored with no expiry and never goes away.\<close>

lemma put_ttl_zero_never_expires:
  "\<exists>db'. cache_data tm k v (Some 0) db = Inr db' \<and> get_cached_data tm' k db' = Inr (Some v, db')"
  by (simp add: cache_data_def get_cached_data_def)

text \<open>
  C4.  As utils.py is written, \<open>cache_data("k", "v", expire=3600)\<close> on an empty table
  raises \<open>NameError\<close> at \<open>int(time.time())\<close>: nothing is stored, so no later read can
  return the value.
\<close>

theorem cache_data_ttl_raises_NameError:
  "cache_data utils_time ''k'' ''v'' (Some 3600) Map.empty = Inl NameError"
  by (simp add: cache_data_def utils_time_def int_time_time_def)


section \<open>The rate limiter (utils.py)\<close>

lemma rate_limit_store_bound:
  "rate_limit_store (Some now) key c win db =
     Inr (False, db(key \<mapsto> (str_int (c + 1), if win = 0 then None else Some (now + win))))"
  by (simp add: rate_limit_store_def cache_data_def int_time_time_def)

lemma rate_limit_store_unbound: "rate_limit_store None key c win db = Inl NameError"
  by (simp add: rate_limit_store_def int_time_time_def)

lemma is_rate_limited_fresh:
  "db (rate_key uid) = None \<Longrightarrow>
   is_rate_limited (Some now) uid mx win db =
     Inr (False, db(rate_key uid \<mapsto> (str_int 1, if win = 0 then None else Some (now + win))))"
  by (simp add: is_rate_limited_def rate_limit_store_bound)

lemma is_rate_limited_live:
  assumes "db (rate_key uid) = Some (v, ea)" and "py_int v = Inr c"
    and "ea = None \<or> (\<exists>t. ea = Some t \<and> now < t)"
  shows "is_rate_limited (Some now) uid mx win db =
     (if mx \<le> c then Inr (True, db)
      else Inr (False, db(rate_key uid \<mapsto>
                 (str_int (c + 1), if win = 0 then None else Some (now + win)))))"
  using assms by (auto simp add: is_rate_limited_def rate_limit_store_bound int_time_time_def)

lemma is_rate_limited_expired:
  assumes "db (rate_key uid) = Some (v, Some t)" and "py_int v = Inr c" and "t \<le> now"
  shows "is_rate_limited (Some now) uid mx win db =
     Inr (False, db(rate_key uid \<mapsto> (str_int 1, if win = 0 then None else Some (now + win))))"
  using assms
  by (auto simp add: is_rate_limited_def rate_limit_store_bound int_time_time_def
        delete_cached_data_def)

text \<open>
  With the clock bound, \<open>max_requests=3\<close> and \<open>window_seconds=60\<close>: a user with no row,
  checked at \<open>t1 \<le> t2 \<le> t3 \<le> t4\<close> with \<open>t4\<close> less than 60 seconds after \<open>t1\<close>, is
  allowed three times and then denied; a check at or after the stored expiry, which is
  \<open>t3 + 60\<close>, is allowed again.
\<close>

lemma rate_limiter_sequence:
  assumes fresh: "db (rate_key uid) = None"
    and ord: "t1 \<le> t2" "t2 \<le> t3" "t3 \<le> t4" "t4 < t1 + 60" "t3 + 60 \<le> t5"
  shows "\<exists>db1 db2 db3 db5.
           is_rate_limited (Some t1) uid 3 60 db = Inr (False, db1) \<and>
           is_rate_limited (Some t2) uid 3 60 db1 = Inr (False, db2) \<and>
           is_rate_limited (Some t3) uid 3 60 db2 = Inr (False, db3) \<and>
           is_rate_limited (Some t4) uid 3 60 db3 = Inr (True, db3) \<and>
           is_rate_limited (Some t5) uid 3 60 db3 = Inr (False, db5)"
proof -
  define db1 where "db1 = db(rate_key uid \<mapsto> (str_int 1, Some (t1 + 60)))"
  define db2 where "db2 = db1(rate_key uid \<mapsto> (str_int 2, Some (t2 + 60)))"
  define db3 where "db3 = db2(rate_key uid \<mapsto> (str_int 3, Some (t3 + 60)))"
  have s1: "is_rate_limited (Some t1) uid 3 60 db = Inr (False, db1)"
    using is_rate_limited_fresh [of db uid t1 3 60] fresh by (simp add: db1_def)
  have s2: "is_rate_limited (Some t2) uid 3 60 db1 = Inr (False, db2)"
    using is_rate_limited_live [of db1 uid "str_int 1" "Some (t1 + 60)" 1 t2 3 60] ord
    by (simp add: db1_def db2_def py_int_str_1)
  have s3: "is_rate_limited (Some t3) uid 3 60 db2 = Inr (False, db3)"
    using is_rate_limited_live [of db2 uid "str_int 2" "Some (t2 + 60)" 2 t3 3 60] ord
    by (simp add: db2_def db3_def py_int_str_2)
  have s4: "is_rate_limited (Some t4) uid 3 60 db3 = Inr (True, db3)"
    using is_rate_limited_live [of db3 uid "str_int 3" "Some (t3 + 60)" 3 t4 3 60] ord
    by (simp add: db3_def py_int_str_3)
  have s5: "\<exists>db5. is_rate_limited (Some t5) uid 3 60 db3 = Inr (False, db5)"
    using is_rate_limited_expired [of db3 uid "str_int 3" "t3 + 60" 3 t5 3 60] ord
    by (simp add: db3_def py_int_str_3)
  from s1 s2 s3 s4 s5 show ?thesis by blast
qed

text \<open>
  C6.  As utils.py is written, the first check of a user with no row,
  \<open>is_rate_limited(7, max_requests=3, window_seconds=60)\<close>, raises \<open>NameError\<close> at
  \<open>expire_at = int(time.time()) + window_seconds\<close> instead of allowing the request, and
  writes nothing.
\<close>

theorem is_rate_limited_first_check_raises_NameError:
  "is_rate_limited utils_time 7 3 60 Map.empty = Inl NameError"
  by (simp add: is_rate_limited_def rate_limit_store_def utils_time_def int_time_time_def)




section \<open>The user ledger (user\_management.py)\<close>

lemma create_user_existing:
  "sqlite_users s uid = Some r \<Longrightarrow> create_user uid s = Inr s"
  by (simp add: create_user_def create_user_try_def)

lemma create_user_down: "\<not> sqlite_up s \<Longrightarrow> create_user uid s = Inr s"
  by (simp add: create_user_def create_user_try_def)

lemma create_user_fresh:
  "sqlite_up s \<Longrightarrow> sqlite_users s uid = None \<Longrightarrow>
   create_user uid s = Inr (s\<lparr>sqlite_users := (sqlite_users s)(uid \<mapsto>
       \<lparr>row_coins = 10, row_language = ''en'', row_achievements = ''[]''\<rparr>)\<rparr>)"
  by (simp add: create_user_def create_user_try_def)

text \<open>
  C5.  \<open>create_user\<close> always returns, and a second call on the ledger the first one left
  changes nothing.  A row that exists is left as it is (so is the whole ledger, also when
  the SQLite connection fails); when the user has no row and the connection works, the
  first call adds the row with 10 coins, language \<open>"en"\<close> and achievements \<open>"[]"\<close> and
  changes nothing else.
\<close>

theorem create_user_idempotent:
  "\<exists>s1. create_user uid s = Inr s1
     \<and> create_user uid s1 = Inr s1
     \<and> (sqlite_users s uid \<noteq> None \<or> \<not> sqlite_up s \<longrightarrow> s1 = s)
     \<and> (sqlite_users s uid = None \<and> sqlite_up s \<longrightarrow>
          s1 = s\<lparr>sqlite_users := (sqlite_users s)(uid \<mapsto>
                 \<lparr>row_coins = 10, row_language = ''en'', row_achievements = ''[]''\<rparr>)\<rparr>)"
proof (cases "sqlite_up s \<and> sqlite_users s uid = None")
  case True
  then have "create_user uid s = Inr (s\<lparr>sqlite_users := (sqlite_users s)(uid \<mapsto>
       \<lparr>row_coins = 10, row_language = ''en'', row_achievements = ''[]''\<rparr>)\<rparr>)"
    by (simp add: create_user_fresh)
  moreover have "create_user uid (s\<lparr>sqlite_users := (sqlite_users s)(uid \<mapsto>
       \<lparr>row_coins = 10, row_language = ''en'', row_achievements = ''[]''\<rparr>)\<rparr>)
     = Inr (s\<lparr>sqlite_users := (sqlite_users s)(uid \<mapsto>
       \<lparr>row_coins = 10, row_language = ''en'', row_achievements = ''[]''\<rparr>)\<rparr>)"
    by (rule create_user_existing
          [where r = "\<lparr>row_coins = 10, row_language = ''en'', row_achievements = ''[]''\<rparr>"])
       simp
  ultimately show ?thesis using True by simp
next
  case False
  then have "create_user uid s = Inr s"
    by (cases "sqlite_users s uid") (auto simp add: create_user_existing create_user_down)
  then show ?thesis using False by auto
qed

theorem create_user_idempotent_witness:
  "sqlite_users ledger_empty 1 = None \<and> sqlite_up ledger_empty
   \<and> create_user 1 ledger_empty =
       Inr (ledger_empty\<lparr>sqlite_users := (sqlite_users ledger_empty)(1 \<mapsto>
              \<lparr>row_coins = 10, row_language = ''en'', row_achievements = ''[]''\<rparr>)\<rparr>)
   \<and> create_user 1 (ledger_empty\<lparr>sqlite_users := (sqlite_users ledger_empty)(1 \<mapsto>
              \<lparr>row_coins = 10, row_language = ''en'', row_achievements = ''[]''\<rparr>)\<rparr>) =
       Inr (ledger_empty\<lparr>sqlite_users := (sqlite_users ledger_empty)(1 \<mapsto>
              \<lparr>row_coins = 10, row_language = ''en'', row_achievements = ''[]''\<rparr>)\<rparr>)
   \<and> sqlite_users ledger_ten 1 \<noteq> None
   \<and> create_user 1 ledger_ten = Inr ledger_ten
   \<and> \<not> sqlite_up failing_ledger
   \<and> create_user 1 failing_ledger = Inr failing_ledger"
proof -
  have a: "sqlite_users ledger_empty 1 = None \<and> sqlite_up ledger_empty"
    by (simp add: ledger_empty_def)
  have b: "sqlite_users ledger_ten 1 \<noteq> None"
    by (simp add: ledger_ten_def)
  have c: "\<not> sqlite_up failing_ledger"
    by (simp add: failing_ledger_def)
  from create_user_idempotent [of 1 ledger_empty]
  obtain s1 where c1: "create_user 1 ledger_empty = Inr s1"
    and c2: "create_user 1 s1 = Inr s1"
    and c3: "sqlite_users ledger_empty 1 = None \<and> sqlite_up ledger_empty \<longrightarrow>
          s1 = ledger_empty\<lparr>sqlite_users := (sqlite_users ledger_empty)(1 \<mapsto>
                 \<lparr>row_coins = 10, row_language = ''en'', row_achievements = ''[]''\<rparr>)\<rparr>"
    by blast
  from c3 a have s1: "s1 = ledger_empty\<lparr>sqlite_users := (sqlite_users ledger_empty)(1 \<mapsto>
                 \<lparr>row_coins = 10, row_language = ''en'', row_achievements = ''[]''\<rparr>)\<rparr>"
    by (rule mp)
  have r1: "create_user 1 ledger_empty =
       Inr (ledger_empty\<lparr>sqlite_users := (sqlite_users ledger_empty)(1 \<mapsto>
              \<lparr>row_coins = 10, row_language = ''en'', row_achievements = ''[]''\<rparr>)\<rparr>)
     \<and> create_user 1 (ledger_empty\<lparr>sqlite_users := (sqlite_users ledger_empty)(1 \<mapsto>
              \<lparr>row_coins = 10, row_language = ''en'', row_achievements = ''[]''\<rparr>)\<rparr>) =
       Inr (ledger_empty\<lparr>sqlite_users := (sqlite_users ledger_empty)(1 \<mapsto>
              \<lparr>row_coins = 10, row_language = ''en'', row_achievements = ''[]''\<rparr>)\<rparr>)"
    using c1 c2 unfolding s1 by (rule conjI)
  from create_user_idempotent [of 1 ledger_ten] b
  have r2: "create_user 1 ledger_ten = Inr ledger_ten"
    by blast
  from create_user_idempotent [of 1 failing_ledger] c
  have r3: "create_user 1 failing_ledger = Inr failing_ledger"
    by blast
  from a r1 b r2 c r3 show ?thesis
    by blast
qed













section \<open>The cache of answers (bot\_commands.py)\<close>






section \<open>The lookup (bot\_commands.py)\<close>

lemma debit_ledger:
  "ledger (debit uid w) =
     (if sqlite_up (ledger w) then
        (case sqlite_users (ledger w) uid of
           None \<Rightarrow> ledger w
         | Some r \<Rightarrow> (ledger w)\<lparr>sqlite_users := (sqlite_users (ledger w))(uid \<mapsto>
                         r\<lparr>row_coins := row_coins r - 1\<rparr>)\<rparr>)
      else ledger w)"
  by (simp add: debit_def update_coins_def update_coins_try_def emit_def split: option.splits)

lemma debit_events: "events (debit uid w) = events w @ [UpdateCoins uid (- 1)]"
  by (simp add: debit_def update_coins_def update_coins_try_def emit_def split: option.splits)

lemma debit_frame:
  "cache (debit uid w) = cache w \<and> rate_table (debit uid w) = rate_table w
   \<and> subject (debit uid w) = subject w \<and> level (debit uid w) = level w
   \<and> paper (debit uid w) = paper w \<and> similar_questions (debit uid w) = similar_questions w"
  by (simp add: debit_def update_coins_def update_coins_try_def emit_def split: option.splits)

lemma strip_q3: "strip ''What is 3+3?'' = ''What is 3+3?''"
  by code_simp

lemma strip_q2: "strip ''What is 2+2?'' = ''What is 2+2?''"
  by code_simp

lemma get_user_zero:
  "get_user 1 ledger_zero =
     Inr (Some \<lparr>user_id = 1, coins = 0, language = ''fr'', achievements = ''[]''\<rparr>)"
  by (simp add: get_user_def find_one_def sqlite_select_user_def ledger_zero_def)

lemma get_user_ten:
  "get_user 1 ledger_ten =
     Inr (Some \<lparr>user_id = 1, coins = 10, language = ''en'', achievements = ''[]''\<rparr>)"
  by (simp add: get_user_def find_one_def sqlite_select_user_def ledger_ten_def)

text \<open>
  C2.  When the balance that \<open>get_user\<close> returns is 0 or less, \<open>handle_question\<close> sends
  the one message and returns \<open>ConversationHandler.END\<close>.  The world it leaves differs
  from the one it found by that message only: the ledger is unchanged, and there is no
  cache access, no fetch, no match and no \<open>update_coins\<close>.
\<close>

theorem handle_question_insufficient_funds:
  assumes "get_user uid (ledger w) = Inr (Some u)" and "coins u \<le> 0"
  shows "handle_question scrape_past_papers find_similar_questions uid txt w =
           (Inr END, w\<lparr>events := events w @
              [Reply ''You don't have enough coins to ask a question.'']\<rparr>)"
  using assms by (simp add: handle_question_def emit_def)

theorem handle_question_insufficient_funds_witness:
  "get_user 1 (ledger world_zero) =
     Inr (Some \<lparr>user_id = 1, coins = 0, language = ''fr'', achievements = ''[]''\<rparr>)
   \<and> coins \<lparr>user_id = 1, coins = 0, language = ''fr'', achievements = ''[]''\<rparr> \<le> 0
   \<and> handle_question one_paper finds_nothing 1 ''What is 2+2?'' world_zero =
       (Inr END, world_zero\<lparr>events := events world_zero @
              [Reply ''You don't have enough coins to ask a question.'']\<rparr>)"
proof -
  have g: "get_user 1 (ledger world_zero) =
     Inr (Some \<lparr>user_id = 1, coins = 0, language = ''fr'', achievements = ''[]''\<rparr>)"
    by (simp add: world_zero_def get_user_zero)
  have c: "coins \<lparr>user_id = 1, coins = 0, language = ''fr'', achievements = ''[]''\<rparr> \<le> 0"
    by simp
  from handle_question_insufficient_funds [OF g c, of one_paper finds_nothing "''What is 2+2?''"] g c
  show ?thesis by simp
qed







text \<open>
  As bot\_commands.py binds the two collaborators, the call of \<open>scrape_past_papers\<close>
  raises \<open>NameError\<close>: the handler catches it, replies with the error message, debits
  nothing and returns \<open>SELECT_SIMILAR\<close>.
\<close>

lemma handle_question_unbound_collaborators:
  "handle_question scrape_past_papers_unbound find_similar_questions_unbound 1 ''What is 3+3?''
     world_miss =
     (Inr SELECT_SIMILAR,
      world_miss\<lparr>events :=
        [CacheRead ''What is 3+3?:Physics:O-Level:Paper 1'',
         Fetch ''Physics'' ''O-Level'' ''Paper 1'',
         Reply ''An error occurred while processing your request.'']\<rparr>)"
proof -
  have g: "get_user 1 (ledger world_miss) =
     Inr (Some \<lparr>user_id = 1, coins = 10, language = ''en'', achievements = ''[]''\<rparr>)"
    by (simp add: world_miss_def get_user_ten)
  have k: "cache_key ''What is 3+3?'' ''Physics'' ''O-Level'' ''Paper 1''
             = ''What is 3+3?:Physics:O-Level:Paper 1''"
    by (simp add: cache_key_def)
  have s: "subject world_miss = Some ''Physics'' \<and> level world_miss = Some ''O-Level''
           \<and> paper world_miss = Some ''Paper 1'' \<and> cache world_miss = Map.empty
           \<and> events world_miss = []"
    by (simp add: world_miss_def)
  show ?thesis
    by (simp add: handle_question_def handle_question_try_def Let_def g s k strip_q3 truthy_def
          cache_read_def get_cached_data_bc_def emit_def scrape_past_papers_unbound_def)
qed

lemma cache_hit_run:
  assumes user: "get_user uid (ledger w) = Inr (Some u)" and pos: "0 < coins u"
    and sel: "subject w = Some subj" "level w = Some lev" "paper w = Some pap"
      "subj \<noteq> []" "lev \<noteq> []" "pap \<noteq> []"
    and hit: "cache w (cache_key (strip txt) subj lev pap) = Some a" "a \<noteq> []"
  shows "handle_question scrape_past_papers find_similar_questions uid txt w =
     (Inr END,
      debit uid (w\<lparr>events := events w @
         [CacheRead (cache_key (strip txt) subj lev pap), Reply (''Cached answer: '' @ a)]\<rparr>))"
proof -
  have t: "truthy (subject w) \<and> truthy (level w) \<and> truthy (paper w)"
    using sel by (simp add: truthy_def)
  have r: "cache_read (cache_key (strip txt) subj lev pap) w =
     (Some a, w\<lparr>events := events w @ [CacheRead (cache_key (strip txt) subj lev pap)]\<rparr>)"
    using hit by (simp add: cache_read_def get_cached_data_bc_def emit_def)
  show ?thesis
    using user pos t sel hit
    by (simp add: handle_question_def Let_def r truthy_def emit_def)
qed

lemma cache_hit_run_hit:
  "handle_question one_paper finds_nothing 1 ''What is 2+2?'' world_hit =
     (Inr END,
      debit 1 (world_hit\<lparr>events := events world_hit @
         [CacheRead ''What is 2+2?:Physics:O-Level:Paper 1'', Reply ''Cached answer: 4'']\<rparr>))"
proof -
  have g: "get_user 1 (ledger world_hit) =
     Inr (Some \<lparr>user_id = 1, coins = 10, language = ''en'', achievements = ''[]''\<rparr>)"
    by (simp add: world_hit_def get_user_ten)
  have k: "cache_key (strip ''What is 2+2?'') ''Physics'' ''O-Level'' ''Paper 1''
             = ''What is 2+2?:Physics:O-Level:Paper 1''"
    by (simp add: cache_key_def strip_q2)
  have "handle_question one_paper finds_nothing 1 ''What is 2+2?'' world_hit =
     (Inr END,
      debit 1 (world_hit\<lparr>events := events world_hit @
         [CacheRead (cache_key (strip ''What is 2+2?'') ''Physics'' ''O-Level'' ''Paper 1''),
          Reply (''Cached answer: '' @ ''4'')]\<rparr>))"
    by (rule cache_hit_run [OF g]) (simp_all add: world_hit_def k)
  then show ?thesis by (simp add: k)
qed

lemma emit_rate: "emit ev (w\<lparr>rate_table := t\<rparr>) = (emit ev w)\<lparr>rate_table := t\<rparr>"
  by (simp add: emit_def)

lemma debit_rate: "debit uid (w\<lparr>rate_table := t\<rparr>) = (debit uid w)\<lparr>rate_table := t\<rparr>"
  by (simp add: debit_def emit_def split: sum.splits)

lemma cache_write_rate:
  "cache_write key v (w\<lparr>rate_table := t\<rparr>) = (cache_write key v w)\<lparr>rate_table := t\<rparr>"
  by (simp add: cache_write_def emit_def)

lemma list_similar_questions_rate:
  "list_similar_questions qs (w\<lparr>rate_table := t\<rparr>) = (list_similar_questions qs w)\<lparr>rate_table := t\<rparr>"
  by (simp add: list_similar_questions_def emit_def)

lemma similar_rate:
  "(w\<lparr>rate_table := t\<rparr>)\<lparr>similar_questions := x\<rparr> = (w\<lparr>similar_questions := x\<rparr>)\<lparr>rate_table := t\<rparr>"
  by simp

lemma handle_question_try_rate:
  "handle_question_try sp fsq uid q subj lev pap key (w\<lparr>rate_table := t\<rparr>) =
     (fst (handle_question_try sp fsq uid q subj lev pap key w),
      (snd (handle_question_try sp fsq uid q subj lev pap key w))\<lparr>rate_table := t\<rparr>)"
  by (simp add: handle_question_try_def Let_def emit_rate debit_rate cache_write_rate
        list_similar_questions_rate similar_rate
        split: sum.splits list.splits del: world.simps)

lemma handle_question_rate:
  "handle_question sp fsq uid txt (w\<lparr>rate_table := t\<rparr>) =
     (fst (handle_question sp fsq uid txt w),
      (snd (handle_question sp fsq uid txt w))\<lparr>rate_table := t\<rparr>)"
proof -
  let ?q = "strip txt"
  let ?key = "cache_key ?q (the (subject w)) (the (level w)) (the (paper w))"
  let ?w1 = "emit (CacheRead ?key) w"
  obtain x w2 where r: "handle_question_try sp fsq uid ?q (the (subject w)) (the (level w))
      (the (paper w)) ?key ?w1 = (x, w2)"
    by (cases "handle_question_try sp fsq uid ?q (the (subject w)) (the (level w))
      (the (paper w)) ?key ?w1") blast
  have r': "handle_question_try sp fsq uid ?q (the (subject w)) (the (level w))
      (the (paper w)) ?key (?w1\<lparr>rate_table := t\<rparr>) = (x, w2\<lparr>rate_table := t\<rparr>)"
    using r handle_question_try_rate [where sp = sp and fsq = fsq and uid = uid and q = ?q
        and subj = "the (subject w)" and lev = "the (level w)" and pap = "the (paper w)"
        and key = ?key and w = ?w1 and t = t]
    by simp
  have cr: "cache_read ?key w = (cache w ?key, ?w1)"
    by (simp add: cache_read_def get_cached_data_bc_def)
  have cr': "cache_read ?key (w\<lparr>rate_table := t\<rparr>) = (cache w ?key, ?w1\<lparr>rate_table := t\<rparr>)"
    by (simp add: cache_read_def get_cached_data_bc_def emit_def)
  show ?thesis
    by (cases "get_user uid (ledger w)"; cases x)
       (auto simp add: handle_question_def Let_def cr cr' r r' emit_rate debit_rate
          split: option.splits)
qed

lemma emit_rate_same: "rate_table (emit ev w) = rate_table w"
  by (simp add: emit_def)

lemma handle_question_try_rate_same:
  "rate_table (snd (handle_question_try sp fsq uid q subj lev pap key w)) = rate_table w"
  by (simp add: handle_question_try_def Let_def emit_rate_same debit_frame cache_write_def
        list_similar_questions_def
        split: sum.splits list.splits)

lemma handle_question_rate_same:
  "rate_table (snd (handle_question sp fsq uid txt w)) = rate_table w"
proof -
  let ?q = "strip txt"
  let ?key = "cache_key ?q (the (subject w)) (the (level w)) (the (paper w))"
  let ?w1 = "emit (CacheRead ?key) w"
  obtain x w2 where r: "handle_question_try sp fsq uid ?q (the (subject w)) (the (level w))
      (the (paper w)) ?key ?w1 = (x, w2)"
    by (cases "handle_question_try sp fsq uid ?q (the (subject w)) (the (level w))
      (the (paper w)) ?key ?w1") blast
  have w2: "rate_table w2 = rate_table w"
    using r handle_question_try_rate_same [of sp fsq uid ?q "the (subject w)" "the (level w)"
        "the (paper w)" ?key ?w1]
    by (simp add: emit_rate_same)
  have cr: "cache_read ?key w = (cache w ?key, ?w1)"
    by (simp add: cache_read_def get_cached_data_bc_def)
  show ?thesis
    by (cases "get_user uid (ledger w)"; cases x)
       (simp_all add: handle_question_def Let_def cr r w2 emit_rate_same debit_frame
          split: option.splits)
qed

text \<open>
  C3, the claim as stated fails.  The rate limiter of utils.py denies user 1 (ten requests
  used, \<open>max_requests=10\<close>), yet on the same world \<open>handle_question\<close> reads the cache,
  replies with the cached answer, takes one coin and returns \<open>ConversationHandler.END\<close>:
  there is no rate-limited outcome.
\<close>

theorem handle_question_rate_limit_counterexample:
  "is_rate_limited utils_time 1 10 60 (rate_table world_hit) = Inr (True, rate_table world_hit)
   \<and> fst (handle_question one_paper finds_nothing 1 ''What is 2+2?'' world_hit) = Inr END
   \<and> events (snd (handle_question one_paper finds_nothing 1 ''What is 2+2?'' world_hit)) =
       [CacheRead ''What is 2+2?:Physics:O-Level:Paper 1'', Reply ''Cached answer: 4'',
        UpdateCoins 1 (- 1)]
   \<and> sqlite_users (ledger (snd (handle_question one_paper finds_nothing 1 ''What is 2+2?'' world_hit))) 1
       = Some \<lparr>row_coins = 9, row_language = ''en'', row_achievements = ''[]''\<rparr>"
proof -
  have a: "is_rate_limited utils_time 1 10 60 (rate_table world_hit)
             = Inr (True, rate_table world_hit)"
    by (simp add: is_rate_limited_def world_hit_def exhausted_table_def rate_key_1 py_int_lit_10)
  have b: "events (snd (handle_question one_paper finds_nothing 1 ''What is 2+2?'' world_hit)) =
       [CacheRead ''What is 2+2?:Physics:O-Level:Paper 1'', Reply ''Cached answer: 4'',
        UpdateCoins 1 (- 1)]"
    by (simp add: cache_hit_run_hit debit_events) (simp add: world_hit_def)
  have c: "sqlite_users (ledger (snd (handle_question one_paper finds_nothing 1 ''What is 2+2?'' world_hit))) 1
       = Some \<lparr>row_coins = 9, row_language = ''en'', row_achievements = ''[]''\<rparr>"
    by (simp add: cache_hit_run_hit debit_ledger) (simp add: world_hit_def ledger_ten_def)
  from a b c show ?thesis by (simp add: cache_hit_run_hit)
qed

text \<open>
  C3 as amended.  \<open>handle_question\<close> makes no rate-limit check: \<open>is_rate_limited\<close> is
  imported by bot\_commands.py and never called.  Whatever the rate-limit table holds, the
  handler returns the same state and leaves the same world, and it leaves the rate-limit
  table as it found it.
\<close>

theorem handle_question_ignores_rate_limit:
  "handle_question scrape_past_papers find_similar_questions uid txt (w\<lparr>rate_table := t\<rparr>) =
     (fst (handle_question scrape_past_papers find_similar_questions uid txt w),
      (snd (handle_question scrape_past_papers find_similar_questions uid txt w))\<lparr>rate_table := t\<rparr>)
   \<and> rate_table (snd (handle_question scrape_past_papers find_similar_questions uid txt w))
       = rate_table w"
  by (simp add: handle_question_rate_same)
     (rule handle_question_rate)



end
